theory Spec2Isabelle
  imports Complex_Main
begin

section \<open>The discontinuity detector \<open>utils/disco-detect.py\<close>\<close>

text \<open>
  The script is Python 2 (\<open>reader.next\<close>, \<open>dict.iteritems\<close>). Its \<open>main\<close> parses the
  command line into a handful of local variables, validates them, opens the input and the
  output and scans the input once. The model follows that order. Everything the script
  takes from a library (the csv and json modules, OGR points and distances, the platform's
  local-time conversion, the file system) is a field of the environment record
  \<open>env\<close>; everything the script itself computes is a definition below.
  All text is taken to be ASCII.
\<close>

subsection \<open>Values, rows and exceptions\<close>

datatype exn = KeyError | ValueError | TypeError | IOError | RuntimeError

text \<open>What \<open>main\<close> does in the end: it returns an exit code, or an exception leaves it.\<close>

datatype outcome = Return int | Raise exn

text \<open>
  The values a row can hold. \<open>csv.DictReader\<close> yields strings, \<open>None\<close> for the
  columns a short line lacks, and the list of surplus columns of a long line (under the
  key \<open>None\<close>); a decoded JSON line can also hold integers.
\<close>

datatype pyval = Str string | PyNone | Num int | Rest "string list"

text \<open>
  A row is a Python dict. It is kept as an association list with distinct keys, in the
  order of first insertion; the key \<open>None\<close> is the \<open>restkey\<close> of \<open>csv.DictReader\<close>.
\<close>

type_synonym row = "(string option \<times> pyval) list"

fun dict_set :: "'k \<Rightarrow> 'v \<Rightarrow> ('k \<times> 'v) list \<Rightarrow> ('k \<times> 'v) list" where
  "dict_set k v [] = [(k, v)]"
| "dict_set k v (p # ps) = (if fst p = k then (k, v) # ps else p # dict_set k v ps)"

text \<open>\<open>d[k]\<close>: a missing key raises \<open>KeyError\<close>.\<close>

definition getitem :: "row \<Rightarrow> string \<Rightarrow> exn + pyval" where
  "getitem d k = (case map_of d (Some k) of None \<Rightarrow> Inl KeyError | Some v \<Rightarrow> Inr v)"

text \<open>Sequencing of steps that may raise: the first exception wins.\<close>

definition and_then :: "exn + 'a \<Rightarrow> ('a \<Rightarrow> exn + 'b) \<Rightarrow> exn + 'b" where
  "and_then m f = (case m of Inl e \<Rightarrow> Inl e | Inr x \<Rightarrow> f x)"

subsection \<open>The builtin \<open>int\<close>\<close>

text \<open>
  \<open>int(s)\<close> on a string: surrounding white space is dropped, then an optional sign and
  at least one decimal digit must remain; anything else raises \<open>ValueError\<close>.
  \<open>int(None)\<close> and \<open>int\<close> of a list raise \<open>TypeError\<close>.
\<close>

definition is_space :: "char \<Rightarrow> bool" where
  "is_space c = (c = CHR '' '' \<or> c = CHR 0x09 \<or> c = CHR 0x0A \<or> c = CHR 0x0B
                 \<or> c = CHR 0x0C \<or> c = CHR 0x0D)"

definition is_digit :: "char \<Rightarrow> bool" where
  "is_digit c = (48 \<le> (of_char c :: nat) \<and> (of_char c :: nat) \<le> 57)"

definition strip :: "string \<Rightarrow> string" where
  "strip s = rev (dropWhile is_space (rev (dropWhile is_space s)))"

definition parse_digits :: "string \<Rightarrow> nat option" where
  "parse_digits ds =
     (if ds \<noteq> [] \<and> list_all is_digit ds
      then Some (foldl (\<lambda>a c. 10 * a + (of_char c - 48)) 0 ds) else None)"

definition int_of_string :: "string \<Rightarrow> int option" where
  "int_of_string s =
     (case strip s of
        [] \<Rightarrow> None
      | c # cs \<Rightarrow>
          if c = CHR ''-'' then map_option (\<lambda>n. - int n) (parse_digits cs)
          else if c = CHR ''+'' then map_option int (parse_digits cs)
          else map_option int (parse_digits (c # cs)))"

fun py_int :: "pyval \<Rightarrow> exn + int" where
  "py_int (Str s) = (case int_of_string s of None \<Rightarrow> Inl ValueError | Some n \<Rightarrow> Inr n)"
| "py_int (Num n) = Inr n"
| "py_int PyNone = Inl TypeError"
| "py_int (Rest xs) = Inl TypeError"

text \<open>\<open>str(n)\<close> of an integer, for the progress line and the messages.\<close>

fun str_nat :: "nat \<Rightarrow> string" where
  "str_nat n = (if n < 10 then [char_of (48 + n)] else str_nat (n div 10) @ [char_of (48 + n mod 10)])"

declare str_nat.simps [simp del]

definition str_int :: "int \<Rightarrow> string" where
  "str_int i = (if i < 0 then CHR ''-'' # str_nat (nat (- i)) else str_nat (nat i))"

subsection \<open>The environment: what the script takes from libraries\<close>

text \<open>
  \<^item> \<open>fromtimestamp\<close>: \<open>datetime.fromtimestamp\<close>, the naive local date and time of
    an epoch second, given as the count of seconds of that local date and time; it raises
    where the platform cannot represent the time.
  \<^item> \<open>create_point x y\<close>: \<open>ogr.CreateGeometryFromWkt('POINT (%s %s)' % (x, y))\<close>
    with the spatial reference of the run assigned; OGR raises on text it cannot read.
  \<^item> \<open>point_distance\<close>: \<open>Geometry.Distance\<close>.
  \<^item> \<open>csv_reader\<close>: the rows \<open>csv.reader\<close> yields over the lines of a file;
    \<open>csv_writerow\<close>: the line \<open>csv.writer\<close> writes for a row.
  \<^item> \<open>json_loads\<close>, \<open>json_dumps\<close>: the json module on one line and one row.
  \<^item> \<open>repr_row\<close>: what \<open>print\<close> shows for a row or for \<open>None\<close>.
  \<^item> \<open>srs_from_user_input\<close>: whether \<open>SetFromUserInput\<close> accepts the text.
  \<^item> the file system: \<open>access_r\<close>, \<open>access_w\<close> (\<open>os.access\<close>), \<open>isfile\<close>,
    \<open>dirname\<close>, the lines of a file and of standard input, and \<open>os.linesep\<close>.
\<close>

record 'p env =
  fromtimestamp :: "int \<Rightarrow> exn + int"
  create_point :: "pyval \<Rightarrow> pyval \<Rightarrow> exn + 'p"
  point_distance :: "'p \<Rightarrow> 'p \<Rightarrow> real"
  csv_reader :: "string list \<Rightarrow> string list list"
  csv_writerow :: "pyval list \<Rightarrow> string"
  json_loads :: "string \<Rightarrow> exn + row"
  json_dumps :: "row \<Rightarrow> string"
  repr_row :: "row option \<Rightarrow> string"
  srs_from_user_input :: "string \<Rightarrow> bool"
  access_r :: "string \<Rightarrow> bool"
  access_w :: "string \<Rightarrow> bool"
  isfile :: "string \<Rightarrow> bool"
  dirname :: "string \<Rightarrow> string"
  file_lines :: "string \<Rightarrow> string list"
  stdin_lines :: "string list"
  linesep :: string

subsection \<open>The configuration: the local variables the argument loop sets\<close>

record config =
  write_mode :: string
  skip_lines :: int
  overwrite_mode :: bool
  assign_srs_from_cmdl :: string
  time_threshold :: int
  distance_threshold :: int
  quiet_mode :: bool
  output_product :: string
  input_file_format :: string
  input_file :: "string option"
  output_file :: "string option"
  input_schema :: "string option"
  arg_error :: bool

text \<open>The defaults of \<open>main\<close>, before any argument is read.\<close>

definition defaults :: config where
  "defaults = \<lparr> write_mode = ''w'', skip_lines = 0, overwrite_mode = False,
     assign_srs_from_cmdl = ''EPSG:4326'', time_threshold = 3600, distance_threshold = 1,
     quiet_mode = False, output_product = ''csv'', input_file_format = ''csv'',
     input_file = None, output_file = None, input_schema = None, arg_error = False \<rparr>"

definition valid_output_products :: "string list" where
  "valid_output_products = [''frequency'', ''csv'', ''csv-no-schema'', ''newline'']"

definition valid_input_file_formats :: "string list" where
  "valid_input_file_formats = [''csv'', ''newline'']"

subsection \<open>The state of the scan\<close>

text \<open>
  \<open>last_row\<close> and \<open>discontinuity_counts\<close> are the two variables of the loop.
  \<open>stdout\<close> and \<open>outfile\<close> hold what has been written to \<open>sys.stdout\<close> and to the
  output file. \<open>flagged\<close> is a history variable that no step reads: the rows that
  reached the branch under the distance test, in order.
\<close>

record scan_state =
  last_row :: "row option"
  discontinuity_counts :: "(pyval \<times> nat) list"
  stdout :: "string list"
  outfile :: "string list"
  flagged :: "row list"

definition py_print :: "string \<Rightarrow> scan_state \<Rightarrow> scan_state" where
  "py_print s st = st\<lparr>stdout := stdout st @ [s @ [CHR 0x0A]]\<rparr>"

text \<open>\<open>o_f\<close> is \<open>sys.stdout\<close> when the output path is \<open>-\<close>, the opened file otherwise.\<close>

definition o_f_write :: "config \<Rightarrow> string \<Rightarrow> scan_state \<Rightarrow> scan_state" where
  "o_f_write cfg s st =
     (if output_file cfg = Some ''-'' then st\<lparr>stdout := stdout st @ [s]\<rparr>
      else st\<lparr>outfile := outfile st @ [s]\<rparr>)"

definition o_f :: "config \<Rightarrow> scan_state \<Rightarrow> string list" where
  "o_f cfg st = (if output_file cfg = Some ''-'' then stdout st else outfile st)"

subsection \<open>One pair of rows: the time test, then the distance test\<close>

text \<open>
  \<open>td.seconds\<close> is the seconds field of the normalised \<open>timedelta\<close>: the days are
  split off (rounding down), so the field lies between 0 and 86399 whatever the sign
  and the size of the difference.
\<close>

definition td_seconds :: "int \<Rightarrow> int" where
  "td_seconds d = d mod 86400"

text \<open>
  \<open>int(row['timestamp'])\<close>, \<open>datetime.fromtimestamp(int(row['timestamp']))\<close> and
  \<open>ogr.CreateGeometryFromWkt('POINT (%s %s)' % (row['longitude'], row['latitude']))\<close>,
  each with the exceptions of its parts in the order the script evaluates them.
\<close>

definition epoch_of :: "row \<Rightarrow> exn + int" where
  "epoch_of row = and_then (getitem row ''timestamp'') py_int"

definition datetime_of :: "'p env \<Rightarrow> row \<Rightarrow> exn + int" where
  "datetime_of env row = and_then (epoch_of row) (fromtimestamp env)"

definition point_of :: "'p env \<Rightarrow> row \<Rightarrow> exn + 'p" where
  "point_of env row =
     and_then (getitem row ''longitude'') (\<lambda>lon.
     and_then (getitem row ''latitude'') (\<lambda>lat. create_point env lon lat))"

text \<open>
  Lines 509 to 521. The result is whether the row reaches the branch that emits. The
  previous row is converted before the current one, for the times and for the points.
\<close>

definition is_discontinuous :: "'p env \<Rightarrow> config \<Rightarrow> row \<Rightarrow> row \<Rightarrow> exn + bool" where
  "is_discontinuous env cfg lrow row =
     and_then (datetime_of env lrow) (\<lambda>last_timestamp.
     and_then (datetime_of env row) (\<lambda>process_timestamp.
       if td_seconds (process_timestamp - last_timestamp) \<le> time_threshold cfg then
         and_then (point_of env lrow) (\<lambda>last_point.
         and_then (point_of env row) (\<lambda>process_point.
           Inr (point_distance env last_point process_point
                  \<ge> of_int (distance_threshold cfg))))
       else Inr False))"

subsection \<open>Emitting a flagged row\<close>

fun getitems :: "row \<Rightarrow> string list \<Rightarrow> exn + pyval list" where
  "getitems d [] = Inr []"
| "getitems d (k # ks) =
     and_then (getitem d k) (\<lambda>v. and_then (getitems d ks) (\<lambda>vs. Inr (v # vs)))"

fun strings_of :: "pyval list \<Rightarrow> exn + string list" where
  "strings_of [] = Inr []"
| "strings_of (Str s # vs) = and_then (strings_of vs) (\<lambda>ss. Inr (s # ss))"
| "strings_of (v # vs) = Inl TypeError"

fun comma_join :: "string list \<Rightarrow> string" where
  "comma_join [] = []"
| "comma_join [x] = x"
| "comma_join (x # y # zs) = x @ '','' @ comma_join (y # zs)"

text \<open>
  \<open>','.join(row[_k] for _k in fieldnames)\<close>: \<open>join\<close> first draws every item from the
  generator (a missing key raises there), then refuses an item that is not a string.
  \<open>fieldnames\<close> is \<open>None\<close> when the reader found no schema.
\<close>

definition join_fields :: "string list option \<Rightarrow> row \<Rightarrow> exn + string" where
  "join_fields fieldnames row =
     (case fieldnames of
        None \<Rightarrow> Inl TypeError
      | Some ks \<Rightarrow> and_then (getitems row ks) (\<lambda>vs.
                   and_then (strings_of vs) (\<lambda>ss. Inr (comma_join ss))))"

text \<open>Lines 528 to 531; a list cannot be a key of a dict.\<close>

definition count_mmsi :: "pyval \<Rightarrow> (pyval \<times> nat) list \<Rightarrow> exn + (pyval \<times> nat) list" where
  "count_mmsi k counts =
     (case k of
        Rest xs \<Rightarrow> Inl TypeError
      | _ \<Rightarrow> (case map_of counts k of
                None \<Rightarrow> Inr (dict_set k 1 counts)
              | Some c \<Rightarrow> Inr (dict_set k (c + 1) counts)))"

text \<open>Lines 523 to 531.\<close>

definition emit ::
  "'p env \<Rightarrow> config \<Rightarrow> string list option \<Rightarrow> row \<Rightarrow> scan_state \<Rightarrow> exn + scan_state" where
  "emit env cfg fieldnames row st =
     (if output_product cfg = ''csv'' \<or> output_product cfg = ''csv-no-schema'' then
        and_then (join_fields fieldnames row) (\<lambda>s. Inr (o_f_write cfg (s @ linesep env) st))
      else if output_product cfg = ''newline'' then
        Inr (o_f_write cfg (json_dumps env row @ linesep env) st)
      else if output_product cfg = ''frequency'' then
        and_then (getitem row ''mmsi'') (\<lambda>k.
        and_then (count_mmsi k (discontinuity_counts st)) (\<lambda>counts.
          Inr (st\<lparr>discontinuity_counts := counts\<rparr>)))
      else Inr st)"

subsection \<open>One iteration of the loop\<close>

text \<open>
  Lines 498 and 499. \<open>last_row and ...\<close> stops at a \<open>last_row\<close> that is \<open>None\<close> or an
  empty dict; otherwise \<open>row['mmsi']\<close> is read before \<open>last_row['mmsi']\<close>. The result
  is the new \<open>last_row\<close>.
\<close>

definition compare_mmsi :: "row option \<Rightarrow> row \<Rightarrow> exn + row option" where
  "compare_mmsi lrow row =
     (case lrow of
        None \<Rightarrow> Inr None
      | Some l \<Rightarrow>
          if l = [] then Inr (Some l)
          else and_then (getitem row ''mmsi'') (\<lambda>a.
               and_then (getitem l ''mmsi'') (\<lambda>b.
                 Inr (if a \<noteq> b then None else Some l))))"

definition progress_text :: "nat \<Rightarrow> int \<Rightarrow> string" where
  "progress_text prog_i prog_total =
     [CHR 0x0D, CHR 0x1B] @ ''[K'' @ ''    '' @ str_nat prog_i @ ''/'' @ str_int prog_total"

text \<open>
  Lines 491 to 534. The first component is \<open>None\<close> when the loop goes on, and the way
  \<open>main\<close> ends otherwise: the \<open>KeyError\<close> of the comparison is caught and returns 1,
  every other exception leaves \<open>main\<close>.
\<close>

definition scan_row ::
  "'p env \<Rightarrow> config \<Rightarrow> string list option \<Rightarrow> int \<Rightarrow> nat \<Rightarrow> row \<Rightarrow> scan_state
     \<Rightarrow> outcome option \<times> scan_state" where
  "scan_row env cfg fieldnames prog_total prog_i row st =
     (let st1 = (if \<not> quiet_mode cfg \<and> output_file cfg \<noteq> Some ''-''
                 then st\<lparr>stdout := stdout st @ [progress_text prog_i prog_total]\<rparr> else st)
      in case compare_mmsi (last_row st1) row of
           Inl e \<Rightarrow>
             (Some (Return 1),
              py_print (repr_row env (last_row st1)) (py_print (repr_row env (Some row)) st1))
         | Inr None \<Rightarrow> (None, st1\<lparr>last_row := Some row\<rparr>)
         | Inr (Some l) \<Rightarrow>
             (case is_discontinuous env cfg l row of
                Inl e \<Rightarrow> (Some (Raise e), st1)
              | Inr False \<Rightarrow> (None, st1\<lparr>last_row := Some row\<rparr>)
              | Inr True \<Rightarrow>
                  (case emit env cfg fieldnames row (st1\<lparr>flagged := flagged st1 @ [row]\<rparr>) of
                     Inl e \<Rightarrow> (Some (Raise e), st1)
                   | Inr st2 \<Rightarrow> (None, st2\<lparr>last_row := Some row\<rparr>))))"

subsection \<open>The loop over the reader\<close>

text \<open>
  What a reader yields is a list: \<open>Inr\<close> a row, or \<open>Inl\<close> the exception that the
  call of \<open>next\<close> raises at that place. The end of the list is \<open>StopIteration\<close>.
\<close>

fun scan ::
  "'p env \<Rightarrow> config \<Rightarrow> string list option \<Rightarrow> int \<Rightarrow> nat \<Rightarrow> (exn + row) list \<Rightarrow> scan_state
     \<Rightarrow> outcome option \<times> scan_state" where
  "scan env cfg fieldnames prog_total prog_i [] st = (None, st)"
| "scan env cfg fieldnames prog_total prog_i (Inl e # rows) st = (Some (Raise e), st)"
| "scan env cfg fieldnames prog_total prog_i (Inr row # rows) st =
     (case scan_row env cfg fieldnames prog_total prog_i row st of
        (None, st') \<Rightarrow> scan env cfg fieldnames prog_total (Suc prog_i) rows st'
      | (Some oc, st') \<Rightarrow> (Some oc, st'))"

subsection \<open>The readers\<close>

text \<open>
  \<open>csv.DictReader.next\<close> on one row of the underlying reader:
  \<open>dict(zip(fieldnames, row))\<close>, then the surplus columns of a long row under the key
  \<open>None\<close>, or \<open>None\<close> for each field a short row lacks.
\<close>

definition dict_of_zip :: "string list \<Rightarrow> string list \<Rightarrow> row" where
  "dict_of_zip fieldnames r =
     foldl (\<lambda>d (k, v). dict_set (Some k) (Str v) d) [] (zip fieldnames r)"

definition DictReader_row :: "string list \<Rightarrow> string list \<Rightarrow> row" where
  "DictReader_row fieldnames r =
     (let d = dict_of_zip fieldnames r; lf = length fieldnames; lr = length r
      in if lf < lr then dict_set None (Rest (drop lf r)) d
         else if lf > lr then foldl (\<lambda>d k. dict_set (Some k) PyNone d) d (drop lr fieldnames)
         else d)"

text \<open>Empty rows of the underlying reader are passed over.\<close>

definition DictReader_rows :: "string list \<Rightarrow> string list list \<Rightarrow> (exn + row) list" where
  "DictReader_rows fieldnames rs =
     map (\<lambda>r. Inr (DictReader_row fieldnames r)) (filter (\<lambda>r. r \<noteq> []) rs)"

text \<open>
  \<open>csv.DictReader(i_f, fieldnames=...)\<close> and its property \<open>fieldnames\<close>: without
  field names the first row of the underlying reader is taken as the schema (and
  \<open>fieldnames\<close> stays \<open>None\<close> on an empty input); with field names every row is data.
\<close>

definition DictReader ::
  "'p env \<Rightarrow> string list \<Rightarrow> string list option \<Rightarrow> string list option \<times> (exn + row) list" where
  "DictReader env lines fieldnames =
     (case fieldnames of
        Some fs \<Rightarrow> (Some fs, DictReader_rows fs (csv_reader env lines))
      | None \<Rightarrow>
          (case csv_reader env lines of
             [] \<Rightarrow> (None, [])
           | h # rs \<Rightarrow> (Some h, DictReader_rows h rs)))"

text \<open>
  The script hands the schema of the command line to \<open>csv.DictReader\<close> as the string it
  is (lines 438 and 439 join a list or tuple into a string as well). A string is a
  sequence of one-character strings, and that is what \<open>zip\<close>, \<open>len\<close>, slicing and
  \<open>','.join\<close> see.
\<close>

definition chars_of :: "string \<Rightarrow> string list" where
  "chars_of s = map (\<lambda>c. [c]) s"

text \<open>
  The class \<open>NewlineJSONDictReader\<close>. \<open>json.loads\<close> of the empty string raises
  \<open>ValueError\<close>; \<open>readline\<close> gives the empty string at the end of the file, so
  \<open>next\<close> never raises \<open>StopIteration\<close>. The input is taken to be seekable.
\<close>

definition py_json_loads :: "'p env \<Rightarrow> string \<Rightarrow> exn + row" where
  "py_json_loads env s = (if s = [] then Inl ValueError else json_loads env s)"

definition NewlineJSONDictReader ::
  "'p env \<Rightarrow> string list \<Rightarrow> exn + string list option \<times> (exn + row) list" where
  "NewlineJSONDictReader env lines =
     and_then (py_json_loads env (case lines of [] \<Rightarrow> [] | l # ls \<Rightarrow> l)) (\<lambda>d.
       Inr (Some (List.map_filter fst d), map (py_json_loads env) lines @ [Inl ValueError]))"

text \<open>Lines 468 to 478.\<close>

definition make_reader ::
  "'p env \<Rightarrow> config \<Rightarrow> string list \<Rightarrow> exn + string list option \<times> (exn + row) list" where
  "make_reader env cfg lines =
     (if input_file_format cfg = ''json'' then NewlineJSONDictReader env lines
      else if input_file_format cfg = ''csv'' then
        (case input_schema cfg of
           None \<Rightarrow> Inr (DictReader env lines None)
         | Some s \<Rightarrow> if s \<noteq> [] then Inr (DictReader env lines (Some (chars_of s)))
                     else Inr (DictReader env lines None))
      else Inl IOError)"

subsection \<open>Validation (lines 367 to 426)\<close>

definition init_state :: scan_state where
  "init_state = \<lparr> last_row = None, discontinuity_counts = [], stdout = [], outfile = [],
     flagged = [] \<rparr>"

definition complain :: "bool \<Rightarrow> string list \<Rightarrow> bool \<times> scan_state \<Rightarrow> bool \<times> scan_state" where
  "complain failed msgs bs =
     (if failed then (True, foldl (\<lambda>st m. py_print m st) (snd bs) msgs) else bs)"

definition str_bool :: "bool \<Rightarrow> string" where
  "str_bool b = (if b then ''True'' else ''False'')"

definition check_input_file :: "'p env \<Rightarrow> config \<Rightarrow> bool \<times> scan_state \<Rightarrow> bool \<times> scan_state" where
  "check_input_file env cfg bs =
     (case input_file cfg of
        None \<Rightarrow> complain True [''ERROR: Need an input file''] bs
      | Some f \<Rightarrow>
          complain (f \<noteq> ''-'' \<and> \<not> access_r env f)
            [''ERROR: Can't access input file: '' @ f] bs)"

definition check_output_file :: "'p env \<Rightarrow> config \<Rightarrow> bool \<times> scan_state \<Rightarrow> bool \<times> scan_state" where
  "check_output_file env cfg bs =
     (case output_file cfg of
        None \<Rightarrow> complain True [''ERROR: Need an output file''] bs
      | Some f \<Rightarrow>
          if f \<noteq> ''-'' \<and> \<not> overwrite_mode cfg \<and> isfile env f then
            complain True [''ERROR: Overwrite='' @ str_bool (overwrite_mode cfg)
                             @ '' but output file exists: '' @ f] bs
          else if f \<noteq> ''-'' \<and> isfile env f \<and> \<not> access_w env f then
            complain True [''ERROR: Need write access for output file: '' @ f] bs
          else if f \<noteq> ''-'' \<and> \<not> isfile env f \<and> \<not> access_w env (dirname env f) then
            complain True [''ERROR: Need write access for output dir: '' @ dirname env f] bs
          else bs)"

definition validate :: "'p env \<Rightarrow> config \<Rightarrow> bool \<times> scan_state" where
  "validate env cfg =
     check_output_file env cfg
      (check_input_file env cfg
      (complain (input_file_format cfg \<notin> set valid_input_file_formats)
         [''ERROR: Invalid input file format: '' @ input_file_format cfg,
          ''       Options: csv, newline'']
      (complain (output_product cfg \<notin> set valid_output_products)
         [''ERROR: Invalid output product: '' @ output_product cfg,
          ''       Options: frequency, csv, csv-no-schema, newline'']
      (complain (\<not> 0 \<le> distance_threshold cfg)
         [''ERROR: Invalid distance threshold - must be >= 0: ''
            @ str_int (distance_threshold cfg)]
      (complain (\<not> 0 \<le> time_threshold cfg)
         [''ERROR: Invalid time threshold - must be >= 0: '' @ str_int (time_threshold cfg)]
      (complain (\<not> srs_from_user_input env (assign_srs_from_cmdl cfg))
         [''Invalid assign SRS: '' @ assign_srs_from_cmdl cfg]
      (complain (arg_error cfg) [''ERROR: Did not successfully parse arguments'']
         (False, init_state))))))))"

subsection \<open>Preparing and processing (lines 433 to 552)\<close>

definition str_opt :: "string option \<Rightarrow> string" where
  "str_opt x = (case x of None \<Rightarrow> ''None'' | Some s \<Rightarrow> s)"

text \<open>Line 433: writing to standard output forces quiet mode.\<close>

definition prepare :: "config \<Rightarrow> config" where
  "prepare cfg = (if output_file cfg = Some ''-'' then cfg\<lparr>quiet_mode := True\<rparr> else cfg)"

definition input_lines :: "'p env \<Rightarrow> config \<Rightarrow> string list" where
  "input_lines env cfg =
     (case input_file cfg of
        None \<Rightarrow> []
      | Some f \<Rightarrow> if f = ''-'' then stdin_lines env else file_lines env f)"

text \<open>
  Lines 447 to 456: the lines of the input are counted only when the progress is shown;
  the skipped lines and the schema row are taken off the count.
\<close>

definition counts_lines :: "config \<Rightarrow> bool" where
  "counts_lines cfg = (\<not> quiet_mode cfg \<and> output_file cfg \<noteq> Some ''-'')"

definition prog_total :: "'p env \<Rightarrow> config \<Rightarrow> int" where
  "prog_total env cfg =
     (if counts_lines cfg
      then int (length (input_lines env cfg)) - skip_lines cfg
             - (if input_schema cfg = None then 1 else 0)
      else 0)"

text \<open>Lines 540 to 544; the dict is walked in the order of first insertion.\<close>

definition dump_frequency :: "'p env \<Rightarrow> config \<Rightarrow> scan_state \<Rightarrow> scan_state" where
  "dump_frequency env cfg st =
     foldl (\<lambda>st (mmsi, count). o_f_write cfg (csv_writerow env [mmsi, Num (int count)]) st)
       (o_f_write cfg (csv_writerow env [Str ''mmsi'', Str ''count'']) st)
       (discontinuity_counts st)"

text \<open>Line 483: \<open>','.join(fieldnames)\<close> raises \<open>TypeError\<close> on \<open>None\<close>.\<close>

definition write_schema ::
  "'p env \<Rightarrow> config \<Rightarrow> string list option \<Rightarrow> scan_state \<Rightarrow> exn + scan_state" where
  "write_schema env cfg fieldnames st =
     (if output_product cfg = ''csv'' then
        (case fieldnames of
           None \<Rightarrow> Inl TypeError
         | Some fs \<Rightarrow> Inr (o_f_write cfg (comma_join fs @ linesep env) st))
      else Inr st)"

text \<open>
  Lines 463 to 552, with the input and the output open. The counting pass of line 449
  leaves standard input closed, and entering \<open>with\<close> on a closed file raises
  \<open>ValueError\<close>. Opening a path that passed validation is taken to succeed.
\<close>

definition process :: "'p env \<Rightarrow> config \<Rightarrow> scan_state \<Rightarrow> outcome \<times> scan_state" where
  "process env cfg st =
     (if counts_lines cfg \<and> input_file cfg = Some ''-'' then (Raise ValueError, st)
      else
        case make_reader env cfg (input_lines env cfg) of
          Inl e \<Rightarrow> (Raise e, st)
        | Inr (fieldnames, rows) \<Rightarrow>
            (case write_schema env cfg fieldnames st of
               Inl e \<Rightarrow> (Raise e, st)
             | Inr st1 \<Rightarrow>
                 (case scan env cfg fieldnames (prog_total env cfg) 0 rows
                         (st1\<lparr>last_row := None, discontinuity_counts := []\<rparr>) of
                    (Some oc, st2) \<Rightarrow> (oc, st2)
                  | (None, st2) \<Rightarrow>
                      (let st3 = (if output_product cfg = ''frequency''
                                  then dump_frequency env cfg st2 else st2)
                       in (Return 0,
                           if \<not> quiet_mode cfg then py_print '' - Done'' st3 else st3)))))"

text \<open>\<open>main\<close> from the validation on, for the configuration the argument loop left.\<close>

definition run :: "'p env \<Rightarrow> config \<Rightarrow> outcome \<times> scan_state" where
  "run env cfg0 =
     (case validate env cfg0 of
        (True, st) \<Rightarrow> (Return 1, st)
      | (False, st) \<Rightarrow>
          (let cfg = prepare cfg0;
               st1 = (if \<not> quiet_mode cfg
                      then py_print (''Schema: '' @ str_opt (input_schema cfg))
                             (py_print (''Output file: '' @ str_opt (output_file cfg))
                               (py_print (''Input file:  '' @ str_opt (input_file cfg)) st))
                      else st)
           in process env cfg st1))"

subsection \<open>An environment for the examples\<close>

text \<open>
  A clock on UTC, points on the integer grid with the taxicab distance, a csv reader that
  splits at commas, one input file whose lines are given, and a POSIX line separator.
\<close>

fun split_on :: "char \<Rightarrow> string \<Rightarrow> string list" where
  "split_on c [] = [[]]"
| "split_on c (x # xs) =
     (if x = c then [] # split_on c xs
      else (case split_on c xs of [] \<Rightarrow> [[x]] | y # ys \<Rightarrow> (x # y) # ys))"

definition csv_line :: "string \<Rightarrow> string list" where
  "csv_line s = (if s = [] then [] else split_on CHR '','' s)"

fun cell :: "pyval \<Rightarrow> string" where
  "cell (Str s) = s"
| "cell PyNone = []"
| "cell (Num n) = str_int n"
| "cell (Rest xs) = comma_join xs"

definition show_row :: "row \<Rightarrow> string" where
  "show_row r = ''{'' @ comma_join (map (\<lambda>(k, v). str_opt k @ '':'' @ cell v) r) @ ''}''"

definition grid_point :: "pyval \<Rightarrow> pyval \<Rightarrow> exn + int \<times> int" where
  "grid_point x y =
     (case (py_int x, py_int y) of (Inr a, Inr b) \<Rightarrow> Inr (a, b) | _ \<Rightarrow> Inl RuntimeError)"

definition grid_env :: "string list \<Rightarrow> (int \<times> int) env" where
  "grid_env lines = \<lparr>
     fromtimestamp = Inr,
     create_point = grid_point,
     point_distance = (\<lambda>(a, b) (c, d). of_int (\<bar>a - c\<bar> + \<bar>b - d\<bar>)),
     csv_reader = map csv_line,
     csv_writerow = (\<lambda>vs. comma_join (map cell vs) @ [CHR 0x0D, CHR 0x0A]),
     json_loads = (\<lambda>s. Inl ValueError),
     json_dumps = show_row,
     repr_row = (\<lambda>r. case r of None \<Rightarrow> ''None'' | Some d \<Rightarrow> show_row d),
     srs_from_user_input = (\<lambda>s. s = ''EPSG:4326''),
     access_r = (\<lambda>f. True),
     access_w = (\<lambda>f. True),
     isfile = (\<lambda>f. False),
     dirname = (\<lambda>f. ''.''),
     file_lines = (\<lambda>f. lines),
     stdin_lines = [],
     linesep = [CHR 0x0A] \<rparr>"

text \<open>The defaults with an input and an output path, and quiet.\<close>

definition quiet_config :: config where
  "quiet_config = defaults\<lparr>input_file := Some ''in.csv'', output_file := Some ''out.csv'',
     quiet_mode := True\<rparr>"

text \<open>
  The three records of the example of the specification, for one vessel: the second is
  1800 seconds and ten grid units after the first, the third 7200 seconds after the second.
\<close>

definition example_fieldnames :: "string list" where
  "example_fieldnames = [''mmsi'', ''timestamp'', ''longitude'', ''latitude'']"

definition example_row :: "string \<Rightarrow> string \<Rightarrow> string \<Rightarrow> string \<Rightarrow> row" where
  "example_row m t x y = DictReader_row example_fieldnames [m, t, x, y]"

section \<open>Properties of the scan\<close>

subsection \<open>The previous row\<close>

lemma scan_row_continues_last_row:
  "scan_row env cfg fieldnames tot i row st = (None, st') \<Longrightarrow> last_row st' = Some row"
  by (auto simp: scan_row_def Let_def split: sum.splits option.splits bool.splits if_splits)

lemma scan_append:
  "scan env cfg fieldnames tot i (xs @ ys) st =
     (case scan env cfg fieldnames tot i xs st of
        (None, st1) \<Rightarrow> scan env cfg fieldnames tot (i + length xs) ys st1
      | (Some oc, st1) \<Rightarrow> (Some oc, st1))"
proof (induction xs arbitrary: i st)
  case Nil
  show ?case by simp
next
  case (Cons x xs)
  show ?case
  proof (cases x)
    case (Inl e)
    then show ?thesis by simp
  next
    case (Inr row)
    then show ?thesis
      by (simp add: Cons.IH split: prod.splits option.splits)
  qed
qed

text \<open>
  Claim C8. Whenever the loop has gone through a row and goes on, \<open>last_row\<close> is that
  row, flagged or not: after any prefix of the input that ends with \<open>row\<close>, the state
  holds \<open>row\<close>, so the next row is compared with its immediate predecessor.
\<close>

theorem last_row_is_immediate_predecessor:
  assumes "scan env cfg fieldnames tot i (rows @ [Inr row]) st = (None, st')"
  shows "last_row st' = Some row"
proof -
  obtain r st1 where s1: "scan env cfg fieldnames tot i rows st = (r, st1)"
    by (cases "scan env cfg fieldnames tot i rows st")
  with assms have "r = None"
    by (cases r) (simp_all add: scan_append)
  with assms s1 have
    "scan_row env cfg fieldnames tot (i + length rows) row st1 = (None, st')"
    by (simp add: scan_append split: prod.splits option.splits)
  then show ?thesis by (rule scan_row_continues_last_row)
qed

theorem last_row_is_immediate_predecessor_witness:
  "fst (scan (grid_env []) quiet_config (Some example_fieldnames) 0 0
          ([Inr (example_row ''1'' ''0'' ''0'' ''0'')]
             @ [Inr (example_row ''1'' ''1800'' ''5'' ''5'')]) init_state) = None
   \<and> last_row (snd (scan (grid_env []) quiet_config (Some example_fieldnames) 0 0
          ([Inr (example_row ''1'' ''0'' ''0'' ''0'')]
             @ [Inr (example_row ''1'' ''1800'' ''5'' ''5'')]) init_state))
       = Some (example_row ''1'' ''1800'' ''5'' ''5'')"
proof -
  let ?s = "scan (grid_env []) quiet_config (Some example_fieldnames) 0 0
          ([Inr (example_row ''1'' ''0'' ''0'' ''0'')]
             @ [Inr (example_row ''1'' ''1800'' ''5'' ''5'')]) init_state"
  have h: "fst ?s = None" by code_simp
  then have "?s = (None, snd ?s)" by (simp add: prod_eq_iff)
  from last_row_is_immediate_predecessor [OF this] h show ?thesis by simp
qed

subsection \<open>The first row of a group\<close>

text \<open>
  Claim C5. A row that has no predecessor, or whose predecessor carries another
  \<open>mmsi\<close>, goes through the iteration without an event, whatever its timestamp and
  coordinates: nothing is written to the output, no count changes, and the loop goes on.
  A group of one row consists of such a row only.
\<close>

theorem first_row_of_group_not_flagged:
  assumes "last_row st = None \<or>
     (\<exists>l a b. last_row st = Some l \<and> getitem l ''mmsi'' = Inr a
        \<and> getitem row ''mmsi'' = Inr b \<and> a \<noteq> b)"
  shows "\<exists>st'. scan_row env cfg fieldnames tot i row st = (None, st')
     \<and> o_f cfg st' = o_f cfg st
     \<and> discontinuity_counts st' = discontinuity_counts st
     \<and> flagged st' = flagged st"
  using assms
proof
  assume "last_row st = None"
  then show ?thesis
    by (simp add: scan_row_def compare_mmsi_def o_f_def Let_def)
next
  assume "\<exists>l a b. last_row st = Some l \<and> getitem l ''mmsi'' = Inr a
        \<and> getitem row ''mmsi'' = Inr b \<and> a \<noteq> b"
  then obtain l a b where h: "last_row st = Some l" "getitem l ''mmsi'' = Inr a"
    "getitem row ''mmsi'' = Inr b" "a \<noteq> b" by blast
  from h(2) have "l \<noteq> []" by (auto simp: getitem_def)
  with h have "compare_mmsi (Some l) row = Inr None"
    by (simp add: compare_mmsi_def and_then_def)
  with h(1) show ?thesis
    by (simp add: scan_row_def o_f_def Let_def)
qed

theorem first_row_of_group_not_flagged_witness:
  "getitem (example_row ''1'' ''0'' ''0'' ''0'') ''mmsi'' = Inr (Str ''1'')
   \<and> getitem (example_row ''2'' ''10'' ''5'' ''5'') ''mmsi'' = Inr (Str ''2'')
   \<and> (\<exists>st'. scan_row (grid_env []) quiet_config (Some example_fieldnames) 0 1
          (example_row ''2'' ''10'' ''5'' ''5'')
          (init_state\<lparr>last_row := Some (example_row ''1'' ''0'' ''0'' ''0'')\<rparr>) = (None, st')
        \<and> o_f quiet_config st'
            = o_f quiet_config (init_state\<lparr>last_row := Some (example_row ''1'' ''0'' ''0'' ''0'')\<rparr>)
        \<and> discontinuity_counts st' = discontinuity_counts
             (init_state\<lparr>last_row := Some (example_row ''1'' ''0'' ''0'' ''0'')\<rparr>)
        \<and> flagged st' = flagged (init_state\<lparr>last_row := Some (example_row ''1'' ''0'' ''0'' ''0'')\<rparr>))"
proof -
  have a: "getitem (example_row ''1'' ''0'' ''0'' ''0'') ''mmsi'' = Inr (Str ''1'')"
    by code_simp
  have b: "getitem (example_row ''2'' ''10'' ''5'' ''5'') ''mmsi'' = Inr (Str ''2'')"
    by code_simp
  have "last_row (init_state\<lparr>last_row := Some (example_row ''1'' ''0'' ''0'' ''0'')\<rparr>) = None \<or>
     (\<exists>l a b. last_row (init_state\<lparr>last_row := Some (example_row ''1'' ''0'' ''0'' ''0'')\<rparr>) = Some l
        \<and> getitem l ''mmsi'' = Inr a
        \<and> getitem (example_row ''2'' ''10'' ''5'' ''5'') ''mmsi'' = Inr b \<and> a \<noteq> b)"
    using a b by simp
  from first_row_of_group_not_flagged [OF this] a b show ?thesis by blast
qed

subsection \<open>The two tests\<close>

lemma map_of_dict_set: "map_of (dict_set k v d) = (map_of d)(k \<mapsto> v)"
  by (induction d) (auto simp: fun_eq_iff)

lemma is_discontinuous_far_in_time:
  assumes "datetime_of env l = Inr dl" "datetime_of env row = Inr dp"
    "time_threshold cfg < td_seconds (dp - dl)"
  shows "is_discontinuous env cfg l row = Inr False"
  using assms by (simp add: is_discontinuous_def and_then_def)

lemma is_discontinuous_flagged:
  assumes "datetime_of env l = Inr dl" "datetime_of env row = Inr dp"
    "td_seconds (dp - dl) \<le> time_threshold cfg"
    "point_of env l = Inr lp" "point_of env row = Inr pp"
    "of_int (distance_threshold cfg) \<le> point_distance env lp pp"
  shows "is_discontinuous env cfg l row = Inr True"
  using assms by (simp add: is_discontinuous_def and_then_def)

lemma compare_mmsi_same:
  assumes "getitem l ''mmsi'' = Inr m" "getitem row ''mmsi'' = Inr m"
  shows "compare_mmsi (Some l) row = Inr (Some l)"
  using assms by (auto simp: compare_mmsi_def and_then_def getitem_def)

lemma td_seconds_le: "0 \<le> d \<Longrightarrow> td_seconds d \<le> d"
  by (simp add: td_seconds_def zmod_le_nonneg_dividend)

lemma scan_row_flagged:
  assumes "last_row st = Some l" "compare_mmsi (Some l) row = Inr (Some l)"
    "is_discontinuous env cfg l row = Inr True"
  shows "scan_row env cfg fieldnames tot i row st =
     (case emit env cfg fieldnames row
        ((if \<not> quiet_mode cfg \<and> output_file cfg \<noteq> Some ''-''
          then st\<lparr>stdout := stdout st @ [progress_text i tot]\<rparr> else st)
           \<lparr>flagged := flagged st @ [row]\<rparr>) of
        Inl e \<Rightarrow> (Some (Raise e),
           (if \<not> quiet_mode cfg \<and> output_file cfg \<noteq> Some ''-''
            then st\<lparr>stdout := stdout st @ [progress_text i tot]\<rparr> else st))
      | Inr st2 \<Rightarrow> (None, st2\<lparr>last_row := Some row\<rparr>))"
  using assms by (simp add: scan_row_def Let_def)

text \<open>
  Claim C2, amended. Two consecutive rows of one \<open>mmsi\<close> whose fields are present and
  well formed, the later at most \<open>time_threshold\<close> seconds after the earlier and not
  before it (both converted to local time under one UTC offset), and at least
  \<open>distance_threshold\<close> apart: the iteration emits exactly one event, for the later row.
  It writes the row's values in schema order (the two csv products, when they join),
  writes the row as JSON (newline), or adds one to the count of the row's \<open>mmsi\<close> and
  writes nothing (frequency); in each case the row is the one row added to \<open>flagged\<close>.
\<close>

theorem close_in_time_far_apart_flagged_once:
  assumes prev: "last_row st = Some l"
    and same: "getitem l ''mmsi'' = Inr m" "getitem row ''mmsi'' = Inr m"
    and times: "epoch_of l = Inr t0" "epoch_of row = Inr t1"
      "fromtimestamp env t0 = Inr d0" "fromtimestamp env t1 = Inr d1" "d1 - d0 = t1 - t0"
    and near: "0 \<le> t1 - t0" "t1 - t0 \<le> time_threshold cfg"
    and points: "point_of env l = Inr q0" "point_of env row = Inr q1"
    and far: "of_int (distance_threshold cfg) \<le> point_distance env q0 q1"
  shows "((output_product cfg = ''csv'' \<or> output_product cfg = ''csv-no-schema'')
            \<and> join_fields fieldnames row = Inr s \<longrightarrow>
          (\<exists>st'. scan_row env cfg fieldnames tot i row st = (None, st')
             \<and> o_f cfg st' = o_f cfg st @ [s @ linesep env]
             \<and> flagged st' = flagged st @ [row]))
       \<and> (output_product cfg = ''newline'' \<longrightarrow>
          (\<exists>st'. scan_row env cfg fieldnames tot i row st = (None, st')
             \<and> o_f cfg st' = o_f cfg st @ [json_dumps env row @ linesep env]
             \<and> flagged st' = flagged st @ [row]))
       \<and> (output_product cfg = ''frequency'' \<and> (\<forall>xs. m \<noteq> Rest xs) \<longrightarrow>
          (\<exists>st'. scan_row env cfg fieldnames tot i row st = (None, st')
             \<and> o_f cfg st' = o_f cfg st
             \<and> map_of (discontinuity_counts st') m
                 = Some (Suc (case map_of (discontinuity_counts st) m of None \<Rightarrow> 0 | Some c \<Rightarrow> c))
             \<and> (\<forall>k. k \<noteq> m \<longrightarrow> map_of (discontinuity_counts st') k
                                  = map_of (discontinuity_counts st) k)
             \<and> flagged st' = flagged st @ [row]))"
proof -
  have dts: "datetime_of env l = Inr d0" "datetime_of env row = Inr d1"
    using times by (simp_all add: datetime_of_def and_then_def)
  have "td_seconds (d1 - d0) \<le> t1 - t0"
    using times(5) near(1) td_seconds_le [of "t1 - t0"] by simp
  then have "td_seconds (d1 - d0) \<le> time_threshold cfg" using near by simp
  from is_discontinuous_flagged [OF dts this points far]
  have d: "is_discontinuous env cfg l row = Inr True" .
  have c: "compare_mmsi (Some l) row = Inr (Some l)"
    using same by (rule compare_mmsi_same)
  note step = scan_row_flagged [OF prev c d, of fieldnames tot i]
  have p1: "(output_product cfg = ''csv'' \<or> output_product cfg = ''csv-no-schema'')
            \<and> join_fields fieldnames row = Inr s \<longrightarrow>
          (\<exists>st'. scan_row env cfg fieldnames tot i row st = (None, st')
             \<and> o_f cfg st' = o_f cfg st @ [s @ linesep env]
             \<and> flagged st' = flagged st @ [row])"
    by (auto simp: step emit_def and_then_def o_f_def o_f_write_def)
  have p2: "output_product cfg = ''newline'' \<longrightarrow>
          (\<exists>st'. scan_row env cfg fieldnames tot i row st = (None, st')
             \<and> o_f cfg st' = o_f cfg st @ [json_dumps env row @ linesep env]
             \<and> flagged st' = flagged st @ [row])"
    by (auto simp: step emit_def and_then_def o_f_def o_f_write_def)
  have p3: "output_product cfg = ''frequency'' \<and> (\<forall>xs. m \<noteq> Rest xs) \<longrightarrow>
          (\<exists>st'. scan_row env cfg fieldnames tot i row st = (None, st')
             \<and> o_f cfg st' = o_f cfg st
             \<and> map_of (discontinuity_counts st') m
                 = Some (Suc (case map_of (discontinuity_counts st) m of None \<Rightarrow> 0 | Some c \<Rightarrow> c))
             \<and> (\<forall>k. k \<noteq> m \<longrightarrow> map_of (discontinuity_counts st') k
                                  = map_of (discontinuity_counts st) k)
             \<and> flagged st' = flagged st @ [row])"
    using same(2)
    by (cases m)
       (auto simp: step emit_def and_then_def o_f_def count_mmsi_def map_of_dict_set
             split: option.splits)
  from p1 p2 p3 show ?thesis by blast
qed

theorem close_in_time_far_apart_flagged_once_witness:
  "\<exists>st'. scan_row (grid_env []) quiet_config (Some example_fieldnames) 0 1
            (example_row ''1'' ''1800'' ''5'' ''5'')
            (init_state\<lparr>last_row := Some (example_row ''1'' ''0'' ''0'' ''0'')\<rparr>) = (None, st')
     \<and> o_f quiet_config st'
         = o_f quiet_config (init_state\<lparr>last_row := Some (example_row ''1'' ''0'' ''0'' ''0'')\<rparr>)
             @ [''1,1800,5,5'' @ linesep (grid_env [])]
     \<and> flagged st'
         = flagged (init_state\<lparr>last_row := Some (example_row ''1'' ''0'' ''0'' ''0'')\<rparr>)
             @ [example_row ''1'' ''1800'' ''5'' ''5'']"
proof -
  let ?l = "example_row ''1'' ''0'' ''0'' ''0''"
  let ?r = "example_row ''1'' ''1800'' ''5'' ''5''"
  let ?E = "grid_env [] :: (int \<times> int) env"
  have h1: "last_row (init_state\<lparr>last_row := Some ?l\<rparr>) = Some ?l" by simp
  have h2: "getitem ?l ''mmsi'' = Inr (Str ''1'')" by code_simp
  have h3: "getitem ?r ''mmsi'' = Inr (Str ''1'')" by code_simp
  have h4: "epoch_of ?l = Inr 0" by code_simp
  have h5: "epoch_of ?r = Inr 1800" by code_simp
  have h6: "fromtimestamp ?E 0 = Inr 0" by (simp add: grid_env_def)
  have h7: "fromtimestamp ?E 1800 = Inr 1800" by (simp add: grid_env_def)
  have h8: "(1800::int) - 0 = 1800 - 0" by simp
  have h9: "(0::int) \<le> 1800 - 0" by simp
  have h10: "(1800::int) - 0 \<le> time_threshold quiet_config"
    by (simp add: quiet_config_def defaults_def)
  have h11: "point_of ?E ?l = Inr (0, 0)" by code_simp
  have h12: "point_of ?E ?r = Inr (5, 5)" by code_simp
  have h13: "of_int (distance_threshold quiet_config) \<le> point_distance ?E (0, 0) (5, 5)"
    by (simp add: quiet_config_def defaults_def grid_env_def)
  have p: "output_product quiet_config = ''csv''"
    by (simp add: quiet_config_def defaults_def)
  have j: "join_fields (Some example_fieldnames) ?r = Inr ''1,1800,5,5''" by code_simp
  note t = close_in_time_far_apart_flagged_once
         [OF h1 h2 h3 h4 h5 h6 h7 h8 h9 h10 h11 h12 h13,
          where fieldnames = "Some example_fieldnames" and s = "''1,1800,5,5''"
            and tot = 0 and i = 1]
  show ?thesis
    by (rule t [THEN conjunct1, THEN mp, OF conjI [OF disjI1 [OF p] j]])
qed

end
